theory Spec2Isabelle
  imports Main "HOL-Library.Sublist"
begin

section \<open>Cell values and the string operations of the runtime\<close>

text \<open>
  The grid handed to \<^verbatim>\<open>processItineraryData\<close> is typed \<^verbatim>\<open>any[][]\<close>: the CSV reader
  yields strings, the spreadsheet reader also yields numbers, booleans and holes. A cell
  is therefore one of the primitive values below. A numeric cell is modelled by its
  integer value (a day number) and stands for a number of magnitude below \<open>2^53\<close>, which
  the runtime prints as its plain decimal numeral; from \<open>2^53\<close> on the runtime prints the
  shortest digits that identify the number, and such numbers are outside the model.

  A \<open>char\<close> stands for the UTF-16 code unit of the same value, so a \<open>string\<close> is a
  JavaScript string whose code units are all below 256.
\<close>

datatype cell = Undefined | Null | Str string | Num int | Bool bool

type_synonym row = "cell list"

text \<open>Reading \<^verbatim>\<open>row[i]\<close>: an index past the end of an array reads \<^verbatim>\<open>undefined\<close>.\<close>

definition cellAt :: "row \<Rightarrow> nat \<Rightarrow> cell" where
  "cellAt r i = (if i < length r then r ! i else Undefined)"

text \<open>Truthiness (\<^verbatim>\<open>ToBoolean\<close>), as used by \<^verbatim>\<open>&&\<close>, \<^verbatim>\<open>||\<close> and \<^verbatim>\<open>!\<close>.\<close>

fun truthy :: "cell \<Rightarrow> bool" where
  "truthy Undefined = False"
| "truthy Null = False"
| "truthy (Str s) = (s \<noteq> [])"
| "truthy (Num n) = (n \<noteq> 0)"
| "truthy (Bool b) = b"

definition digitChar :: "nat \<Rightarrow> char" where
  "digitChar d = char_of (48 + d)"

fun showNat :: "nat \<Rightarrow> string" where
  "showNat n = (if n < 10 then [digitChar n] else showNat (n div 10) @ [digitChar (n mod 10)])"

declare showNat.simps [simp del]

definition showInt :: "int \<Rightarrow> string" where
  "showInt i = (if i < 0 then CHR ''-'' # showNat (nat (- i)) else showNat (nat i))"

text \<open>
  String coercion (\<^verbatim>\<open>ToString\<close>): what \<^verbatim>\<open>String(v)\<close>, \<^verbatim>\<open>v.toString()\<close> on a truthy
  primitive, a template literal and a property key make of a cell.
\<close>

fun toString :: "cell \<Rightarrow> string" where
  "toString Undefined = ''undefined''"
| "toString Null = ''null''"
| "toString (Str s) = s"
| "toString (Num n) = showInt n"
| "toString (Bool b) = (if b then ''true'' else ''false'')"

text \<open>
  \<^verbatim>\<open>String.prototype.trim\<close> strips white space and line terminators from both ends; among
  the code units below 256 these are TAB, LF, VT, FF, CR, space and the no-break space.
\<close>

definition isWhiteSpace :: "char \<Rightarrow> bool" where
  "isWhiteSpace c = (let n = (of_char c :: nat) in (9 \<le> n \<and> n \<le> 13) \<or> n = 32 \<or> n = 160)"

definition trim :: "string \<Rightarrow> string" where
  "trim s = rev (dropWhile isWhiteSpace (rev (dropWhile isWhiteSpace s)))"

text \<open>
  \<^verbatim>\<open>String.prototype.toLowerCase\<close> on code units below 256: the letters A to Z and the
  Latin-1 capitals (\<open>0xC0\<close> to \<open>0xDE\<close> without the multiplication sign \<open>0xD7\<close>) move up
  by 32; every other code unit stays.
\<close>

definition lowerChar :: "char \<Rightarrow> char" where
  "lowerChar c = (let n = (of_char c :: nat) in
     if (65 \<le> n \<and> n \<le> 90) \<or> (192 \<le> n \<and> n \<le> 222 \<and> n \<noteq> 215) then char_of (n + 32) else c)"

definition toLowerCase :: "string \<Rightarrow> string" where
  "toLowerCase s = map lowerChar s"

text \<open>\<^verbatim>\<open>String.prototype.includes\<close>: the keyword occurs as a contiguous run of the text.\<close>

fun includesStr :: "string \<Rightarrow> string \<Rightarrow> bool" where
  "includesStr [] kw = (kw = [])"
| "includesStr (c # cs) kw = (prefix kw (c # cs) \<or> includesStr cs kw)"

section \<open>Meal detection\<close>

definition mealKeywords :: "string list" where
  "mealKeywords = [''breakfast'', ''brunch'', ''lunch'', ''dinner'']"

text \<open>
  \<^verbatim>\<open>detectMealsInItem(category, description)\<close>. The caller passes the raw cells; the
  template literal coerces both to strings. The loop over the keywords pushes, in keyword
  order, each keyword the lowered text includes: it filters the keyword list.
\<close>

definition mealText :: "cell \<Rightarrow> cell \<Rightarrow> string" where
  "mealText category description = toLowerCase (toString category @ '' '' @ toString description)"

definition detectMealsInItem :: "cell \<Rightarrow> cell \<Rightarrow> string list" where
  "detectMealsInItem category description =
     (let lowered = mealText category description
      in filter (\<lambda>keyword. includesStr lowered keyword) mealKeywords)"

section \<open>The itinerary aggregate\<close>

record ItineraryItem =
  timing :: string
  category :: cell
  description :: cell

text \<open>
  \<^verbatim>\<open>allMeals\<close> is a \<^verbatim>\<open>Set\<close>, which keeps its members in insertion order: a list
  without repetitions, extended by \<open>addMeal\<close>. The fields hold the raw cells.
\<close>

record DayData =
  day :: cell
  city :: cell
  date :: cell
  items :: "ItineraryItem list"
  allMeals :: "string list"

record ItineraryData =
  title :: cell
  days :: "string \<rightharpoonup> DayData"

datatype error = TypeError | RangeError

section \<open>Row filter\<close>

text \<open>The predicate handed to \<^verbatim>\<open>filter\<close> in \<^verbatim>\<open>processItineraryData\<close>.\<close>

definition rowFilter :: "row \<Rightarrow> bool" where
  "rowFilter r =
     (truthy (cellAt r 0) \<and> truthy (cellAt r 1) \<and> truthy (cellAt r 5) \<and>
      toLowerCase (trim (toString (cellAt r 0))) \<noteq> ''day'' \<and>
      toLowerCase (trim (toString (cellAt r 1))) \<noteq> ''city'')"

text \<open>\<^verbatim>\<open>data.slice(2).filter(...)\<close>\<close>

definition filteredRows :: "row list \<Rightarrow> row list" where
  "filteredRows data = filter rowFilter (drop 2 data)"

section \<open>Day grouping\<close>

text \<open>
  \<^verbatim>\<open>grouped\<close> is a plain object created by \<^verbatim>\<open>{}\<close>. Reading \<^verbatim>\<open>grouped[day]\<close> turns
  the day cell into a property key by string coercion and finds either a bucket stored
  earlier, or, for the names below, a member inherited from \<^verbatim>\<open>Object.prototype\<close>, or
  nothing.
\<close>

definition objectPrototypeKeys :: "string list" where
  "objectPrototypeKeys =
     [''constructor'', ''__defineGetter__'', ''__defineSetter__'', ''hasOwnProperty'',
      ''__lookupGetter__'', ''__lookupSetter__'', ''isPrototypeOf'', ''propertyIsEnumerable'',
      ''toString'', ''valueOf'', ''__proto__'', ''toLocaleString'']"

datatype property = Own DayData | Inherited | Absent

definition getProperty :: "(string \<rightharpoonup> DayData) \<Rightarrow> string \<Rightarrow> property" where
  "getProperty grouped k =
     (case grouped k of
        Some b \<Rightarrow> Own b
      | None \<Rightarrow> if k \<in> set objectPrototypeKeys then Inherited else Absent)"

definition dayKey :: "row \<Rightarrow> string" where
  "dayKey r = toString (cellAt r 0)"

definition newBucket :: "row \<Rightarrow> DayData" where
  "newBucket r =
     \<lparr>day = cellAt r 0, city = cellAt r 1, date = cellAt r 2, items = [], allMeals = []\<rparr>"

definition makeItem :: "row \<Rightarrow> ItineraryItem" where
  "makeItem r =
     \<lparr>timing = trim (toString (cellAt r 3)), category = cellAt r 4, description = cellAt r 5\<rparr>"

text \<open>\<^verbatim>\<open>Set.prototype.add\<close>\<close>

definition addMeal :: "string \<Rightarrow> string list \<Rightarrow> string list" where
  "addMeal meal s = (if meal \<in> set s then s else s @ [meal])"

text \<open>The two statements that follow the creation of the bucket: push the item, add its meals.\<close>

definition addRow :: "row \<Rightarrow> DayData \<Rightarrow> DayData" where
  "addRow r b =
     (let b1 = b\<lparr>items := items b @ [makeItem r]\<rparr>
      in b1\<lparr>allMeals := fold addMeal (detectMealsInItem (cellAt r 4) (cellAt r 5)) (allMeals b1)\<rparr>)"

text \<open>
  The body of \<^verbatim>\<open>forEach\<close>. An inherited member is truthy, so no bucket is created for
  it; it has no \<^verbatim>\<open>items\<close>, and \<^verbatim>\<open>grouped[day].items.push\<close> throws a \<^verbatim>\<open>TypeError\<close>.
\<close>

definition groupRow :: "row \<Rightarrow> (string \<rightharpoonup> DayData) \<Rightarrow> error + (string \<rightharpoonup> DayData)" where
  "groupRow r grouped =
     (case getProperty grouped (dayKey r) of
        Absent \<Rightarrow> Inr (grouped(dayKey r \<mapsto> addRow r (newBucket r)))
      | Own b \<Rightarrow> Inr (grouped(dayKey r \<mapsto> addRow r b))
      | Inherited \<Rightarrow> Inl TypeError)"

fun forEachRow :: "row list \<Rightarrow> (string \<rightharpoonup> DayData) \<Rightarrow> error + (string \<rightharpoonup> DayData)" where
  "forEachRow [] grouped = Inr grouped"
| "forEachRow (r # rest) grouped =
     (case groupRow r grouped of Inl e \<Rightarrow> Inl e | Inr g \<Rightarrow> forEachRow rest g)"

text \<open>\<^verbatim>\<open>data[0]?.[1] || "Travel Itinerary"\<close>\<close>

definition tripTitle :: "row list \<Rightarrow> cell" where
  "tripTitle data =
     (let t = (case data of [] \<Rightarrow> Undefined | r0 # _ \<Rightarrow> cellAt r0 1)
      in if truthy t then t else Str ''Travel Itinerary'')"

definition processItineraryData :: "row list \<Rightarrow> error + ItineraryData" where
  "processItineraryData data =
     (case forEachRow (filteredRows data) Map.empty of
        Inl e \<Rightarrow> Inl e
      | Inr grouped \<Rightarrow> Inr \<lparr>title = tripTitle data, days = grouped\<rparr>)"

section \<open>Duration calculator\<close>

definition isDigit :: "char \<Rightarrow> bool" where
  "isDigit c = (let n = (of_char c :: nat) in 48 \<le> n \<and> n \<le> 57)"

text \<open>\<^verbatim>\<open>parseInt(s, 10)\<close> on a string of decimal digits.\<close>

definition parseInt10 :: "string \<Rightarrow> int" where
  "parseInt10 s = foldl (\<lambda>acc c. 10 * acc + (int (of_char c) - 48)) 0 s"

text \<open>
  The regular expression \<^verbatim>\<open>/^(\d{1,2}):(\d{2})$/\<close>. \<open>matchTail\<close> is the part after the
  hour group: a colon, two digits and the end of the input. The hour group is greedy: two
  digits are tried first, then one.
\<close>

fun matchTail :: "string \<Rightarrow> string option" where
  "matchTail [c, m1, m2] = (if c = CHR '':'' \<and> isDigit m1 \<and> isDigit m2 then Some [m1, m2] else None)"
| "matchTail _ = None"

fun matchTwoDigitHour :: "string \<Rightarrow> (string \<times> string) option" where
  "matchTwoDigitHour (h1 # h2 # rest) =
     (if isDigit h1 \<and> isDigit h2 then map_option (Pair [h1, h2]) (matchTail rest) else None)"
| "matchTwoDigitHour _ = None"

fun matchOneDigitHour :: "string \<Rightarrow> (string \<times> string) option" where
  "matchOneDigitHour (h1 # rest) =
     (if isDigit h1 then map_option (Pair [h1]) (matchTail rest) else None)"
| "matchOneDigitHour [] = None"

definition timeMatch :: "string \<Rightarrow> (string \<times> string) option" where
  "timeMatch s = (case matchTwoDigitHour s of Some g \<Rightarrow> Some g | None \<Rightarrow> matchOneDigitHour s)"

text \<open>
  The \<^verbatim>\<open>for\<close> loop that fills \<^verbatim>\<open>times\<close>. Both \<^verbatim>\<open>continue\<close> branches only write a
  warning to the console, which is not part of the result.
\<close>

fun parseTimes :: "ItineraryItem list \<Rightarrow> int list" where
  "parseTimes [] = []"
| "parseTimes (item # rest) =
     (case timeMatch (timing item) of
        None \<Rightarrow> parseTimes rest
      | Some (h, m) \<Rightarrow>
          (let hours = parseInt10 h; minutes = parseInt10 m
           in if hours < 0 \<or> hours > 23 \<or> minutes < 0 \<or> minutes > 59 then parseTimes rest
              else (hours * 60 + minutes) # parseTimes rest))"

text \<open>
  \<^verbatim>\<open>Math.min(...times)\<close> and \<^verbatim>\<open>Math.max(...times)\<close> pass every element of \<^verbatim>\<open>times\<close>
  as an argument of one call. An engine accepts only so many arguments in a call and throws
  a \<^verbatim>\<open>RangeError\<close> when a spread has more. The limit belongs to the engine, not to the
  program: it is the parameter \<open>argumentLimit\<close>.
\<close>

definition spreadFits :: "nat \<Rightarrow> 'a list \<Rightarrow> bool" where
  "spreadFits argumentLimit args = (length args \<le> argumentLimit)"

text \<open>
  The values the two calls return for the non-empty list \<open>t # ts\<close> when they go through.
\<close>

definition firstTime :: "int \<Rightarrow> int list \<Rightarrow> int" where
  "firstTime t ts = fold min ts t"

definition lastTime :: "int \<Rightarrow> int list \<Rightarrow> int" where
  "lastTime t ts = fold max ts t"

definition overnight :: "int \<Rightarrow> int list \<Rightarrow> bool" where
  "overnight t ts = (lastTime t ts - firstTime t ts < 0)"

definition durationMinutes :: "int \<Rightarrow> int list \<Rightarrow> int" where
  "durationMinutes t ts =
     (let d = lastTime t ts - firstTime t ts in if overnight t ts then d + 1440 else d)"

text \<open>
  \<^verbatim>\<open>durationHours = durationMinutes / 60\<close> is a binary64 floating-point number. For
  \<open>0 < m < 60 * 2^52\<close> the quotient \<open>m / 60\<close> is rounded to \<open>q / 2^e\<close>, where \<open>e\<close> is the
  least exponent that makes \<open>m * 2^e / 60\<close> at least \<open>2^52\<close> and \<open>q\<close> is the integer
  nearest to \<open>m * 2^e / 60\<close>, a tie going to the even one. \<^verbatim>\<open>toFixed(1)\<close> then
  prints \<open>n / 10\<close> for the integer \<open>n\<close> nearest to \<open>10 * q / 2^e\<close>, the larger one at
  a tie. \<^verbatim>\<open>calculateDayDuration\<close> reaches this with \<open>0 < m < 1440\<close> only.
\<close>

definition roundHalfEven :: "int \<Rightarrow> int \<Rightarrow> int" where
  "roundHalfEven a b =
     (let q = a div b; r = a mod b
      in if 2 * r < b then q else if b < 2 * r then q + 1 else if even q then q else q + 1)"

definition binaryExponent :: "int \<Rightarrow> nat option" where
  "binaryExponent m = find (\<lambda>e. 60 * 2 ^ 52 \<le> m * 2 ^ e) [0..<59]"

definition hoursToFixed1 :: "int \<Rightarrow> string" where
  "hoursToFixed1 m =
     (case binaryExponent m of
        None \<Rightarrow> ''0.0''
      | Some e \<Rightarrow>
          (let q = roundHalfEven (m * 2 ^ e) 60;
               n = (20 * q + 2 ^ e) div 2 ^ (e + 1)
           in showInt (n div 10) @ ''.'' @ showInt (n mod 10)))"

text \<open>The three \<^verbatim>\<open>return\<close> statements that format the duration.\<close>

definition formatDuration :: "int \<Rightarrow> string" where
  "formatDuration d =
     (if d \<ge> 1440 then ''Full day''
      else if d mod 60 = 0 then showInt (d div 60) @ '' hours''
      else hoursToFixed1 d @ '' hours'')"

text \<open>
  \<^verbatim>\<open>calculateDayDuration\<close>. Both early returns come before the spread calls. The call
  of \<^verbatim>\<open>Math.min\<close> is the first of the two and gets the same arguments as the call of
  \<^verbatim>\<open>Math.max\<close>: it throws when they do not fit, and both go through when they do.
\<close>

definition calculateDayDuration :: "nat \<Rightarrow> ItineraryItem list \<Rightarrow> error + string" where
  "calculateDayDuration argumentLimit its =
     (if length its = 0 then Inr ''0 hours''
      else case parseTimes its of
             [] \<Rightarrow> Inr ''0 hours''
           | t # ts \<Rightarrow>
               if \<not> spreadFits argumentLimit (t # ts) then Inl RangeError
               else Inr (formatDuration (durationMinutes t ts)))"

section \<open>Reference definitions\<close>

text \<open>
  The row filter in the words of the specification: a cell is non-empty when it is neither
  \<^verbatim>\<open>undefined\<close> nor \<^verbatim>\<open>null\<close> and its string coercion is not the empty string.
\<close>

definition spec_nonEmpty :: "cell \<Rightarrow> bool" where
  "spec_nonEmpty c = (c \<noteq> Undefined \<and> c \<noteq> Null \<and> toString c \<noteq> [])"

definition spec_rowKept :: "row \<Rightarrow> bool" where
  "spec_rowKept r =
     (spec_nonEmpty (cellAt r 0) \<and> spec_nonEmpty (cellAt r 1) \<and> spec_nonEmpty (cellAt r 5) \<and>
      toLowerCase (trim (toString (cellAt r 0))) \<noteq> ''day'' \<and>
      toLowerCase (trim (toString (cellAt r 1))) \<noteq> ''city'')"

text \<open>The number of items over all buckets of a grouping, and of an itinerary.\<close>

definition itemCount :: "(string \<rightharpoonup> DayData) \<Rightarrow> nat" where
  "itemCount grouped = (\<Sum>k \<in> dom grouped. length (items (the (grouped k))))"

definition totalItems :: "ItineraryData \<Rightarrow> nat" where
  "totalItems r = itemCount (days r)"

text \<open>
  A sample grid: a title row, a header row and three data rows. The second data row has the
  number 1 as its day and a city and date that differ from those of the first.
\<close>

definition exampleGrid :: "row list" where
  "exampleGrid =
    [[Str ''Title'', Str ''European Vacation''],
     [Str ''Day'', Str ''City'', Str ''Date'', Str ''Time'', Str ''Category'', Str ''Description''],
     [Str ''1'', Str ''Paris'', Str ''2025-05-01'', Str ''09:00'', Str ''Sightseeing'',
      Str ''Eiffel Tower visit''],
     [Num 1, Str ''Lyon'', Str ''2025-05-02'', Str ''12:30'', Str ''Food'', Str ''Lunch at Cafe''],
     [Str ''2'', Str ''Rome'', Str ''2025-05-03'', Str ''09:30'', Str ''Sightseeing'',
      Str ''Colosseum'']]"

text \<open>
  A grid without usable data rows: a repeated header row, a row with an empty description
  and a row that is too short.
\<close>

definition rejectedGrid :: "row list" where
  "rejectedGrid =
    [[Str ''Title'', Str ''Weekend Trip''],
     [Str ''Day'', Str ''City'', Str ''Date'', Str ''Time'', Str ''Category'', Str ''Description''],
     [Str '' DAY '', Str ''City'', Str ''Date'', Str ''Time'', Str ''Category'', Str ''Description''],
     [Str ''1'', Str ''Paris'', Str ''2025-05-01'', Str ''08:00'', Str ''Transport'', Str []],
     [Str ''1'', Str ''Paris'']]"









section \<open>Facts about the string operations\<close>

lemma includes_iff: "includesStr t kw \<longleftrightarrow> (\<exists>p s. t = p @ kw @ s)"
proof (induction t)
  case Nil
  then show ?case by auto
next
  case (Cons c cs)
  show ?case
  proof
    assume "includesStr (c # cs) kw"
    then consider "prefix kw (c # cs)" | "includesStr cs kw" by auto
    then show "\<exists>p s. c # cs = p @ kw @ s"
    proof cases
      case 1
      then obtain s where "c # cs = kw @ s" by (auto simp: prefix_def)
      then have "c # cs = [] @ kw @ s" by simp
      then show ?thesis by blast
    next
      case 2
      with Cons.IH obtain p s where "cs = p @ kw @ s" by blast
      then have "c # cs = (c # p) @ kw @ s" by simp
      then show ?thesis by blast
    qed
  next
    assume "\<exists>p s. c # cs = p @ kw @ s"
    then obtain p s where ps: "c # cs = p @ kw @ s" by blast
    show "includesStr (c # cs) kw"
    proof (cases p)
      case Nil
      with ps have "prefix kw (c # cs)" by (simp add: prefix_def)
      then show ?thesis by simp
    next
      case (Cons a p')
      with ps have "cs = p' @ kw @ s" by simp
      with Cons.IH have "includesStr cs kw" by blast
      then show ?thesis by simp
    qed
  qed
qed

lemma includes_sep:
  assumes "sep \<notin> set kw"
  shows "includesStr (a @ sep # b) kw \<longleftrightarrow> includesStr a kw \<or> includesStr b kw"
proof
  assume "includesStr (a @ sep # b) kw"
  then obtain p s where eq: "a @ sep # b = p @ kw @ s" by (auto simp: includes_iff)
  then show "includesStr a kw \<or> includesStr b kw"
    using assms
    by (auto simp: includes_iff append_eq_append_conv2 append_eq_Cons_conv Cons_eq_append_conv) blast+
next
  assume "includesStr a kw \<or> includesStr b kw"
  then show "includesStr (a @ sep # b) kw"
    by (auto simp: includes_iff) (metis append.assoc append_Cons)+
qed

lemma lowerChar_space: "lowerChar CHR '' '' = CHR '' ''"
  by (simp add: lowerChar_def)

section \<open>Meal detection: keyword order and argument order\<close>

lemma mealText_split:
  "mealText c d = toLowerCase (toString c) @ CHR '' '' # toLowerCase (toString d)"
  by (simp add: mealText_def toLowerCase_def lowerChar_space)

lemma keyword_no_space: "kw \<in> set mealKeywords \<Longrightarrow> CHR '' '' \<notin> set kw"
  by (auto simp: mealKeywords_def)

text \<open>No keyword contains the separating space, so an occurrence lies within one argument.\<close>

lemma mealText_includes:
  assumes "kw \<in> set mealKeywords"
  shows "includesStr (mealText c d) kw \<longleftrightarrow>
         includesStr (toLowerCase (toString c)) kw \<or> includesStr (toLowerCase (toString d)) kw"
  using keyword_no_space [OF assms] by (simp add: mealText_split includes_sep)

lemma detect_swap: "detectMealsInItem c d = detectMealsInItem d c"
  unfolding detectMealsInItem_def Let_def
  by (rule filter_cong) (auto simp: mealText_includes)

lemma distinct_mealKeywords: "distinct mealKeywords"
  by (simp add: mealKeywords_def)

lemma distinct_detect: "distinct (detectMealsInItem c d)"
  by (simp add: detectMealsInItem_def distinct_mealKeywords)

text \<open>
  Claim C7. \<^verbatim>\<open>detectMealsInItem\<close> is a function of its two arguments (the same category
  and description always give the same list); the list it returns is the keyword list
  breakfast, brunch, lunch, dinner restricted to the keywords that occur in the lowered
  text, so every detected keyword appears once and in keyword order wherever it occurs in
  the text; and swapping category and description leaves the set of detected keywords
  unchanged.
\<close>

theorem detectMealsInItem_keyword_order:
  "detectMealsInItem c d =
     filter (includesStr (mealText c d)) [''breakfast'', ''brunch'', ''lunch'', ''dinner''] \<and>
   subseq (detectMealsInItem c d) [''breakfast'', ''brunch'', ''lunch'', ''dinner''] \<and>
   distinct (detectMealsInItem c d) \<and>
   set (detectMealsInItem d c) = set (detectMealsInItem c d)"
proof -
  have "detectMealsInItem c d = filter (includesStr (mealText c d)) mealKeywords"
    by (simp add: detectMealsInItem_def)
  moreover have "subseq (detectMealsInItem c d) mealKeywords"
    by (simp add: detectMealsInItem_def)
  moreover have "set (detectMealsInItem d c) = set (detectMealsInItem c d)"
    using detect_swap [of c d] by simp
  ultimately show ?thesis
    using distinct_detect [of c d] by (simp add: mealKeywords_def)
qed

theorem detectMealsInItem_keyword_order_witness:
  "detectMealsInItem (Str ''Dinner cruise'') (Str ''after LUNCH, a lunchbox'') = [''lunch'', ''dinner''] \<and>
   set (detectMealsInItem (Str ''after LUNCH, a lunchbox'') (Str ''Dinner cruise'')) =
     set [''lunch'', ''dinner'']"
proof -
  have run: "detectMealsInItem (Str ''Dinner cruise'') (Str ''after LUNCH, a lunchbox'') =
      [''lunch'', ''dinner'']"
    by code_simp
  from detectMealsInItem_keyword_order
         [of "Str ''Dinner cruise''" "Str ''after LUNCH, a lunchbox''"] run
  show ?thesis by simp
qed

section \<open>Duration calculator: the span between the earliest and the latest time\<close>

lemma parseTimes_range: "x \<in> set (parseTimes its) \<Longrightarrow> 0 \<le> x \<and> x \<le> 1439"
proof (induction its)
  case Nil
  then show ?case by simp
next
  case (Cons item rest)
  then show ?case
    by (auto simp: Let_def split: option.splits if_splits)
qed

lemma firstTime_Min: "firstTime t ts = Min (set (t # ts))"
  by (simp only: firstTime_def Min.set_eq_fold)

lemma lastTime_Max: "lastTime t ts = Max (set (t # ts))"
  by (simp only: lastTime_def Max.set_eq_fold)

lemma first_le_last: "firstTime t ts \<le> lastTime t ts"
  unfolding firstTime_Min lastTime_Max
  by (meson List.finite_set Max_ge Min_le list.set_intros(1) order_trans)

lemma firstTime_mem: "firstTime t ts \<in> set (t # ts)"
  unfolding firstTime_Min by (rule Min_in) auto

lemma lastTime_mem: "lastTime t ts \<in> set (t # ts)"
  unfolding lastTime_Max by (rule Max_in) auto

lemma not_overnight: "\<not> overnight t ts"
  using first_le_last [of t ts] by (simp add: overnight_def)

lemma durationMinutes_span: "durationMinutes t ts = lastTime t ts - firstTime t ts"
  by (simp add: durationMinutes_def not_overnight)

lemma durationMinutes_range:
  assumes "parseTimes its = t # ts"
  shows "0 \<le> durationMinutes t ts \<and> durationMinutes t ts \<le> 1439"
proof -
  have "firstTime t ts \<in> set (parseTimes its)" "lastTime t ts \<in> set (parseTimes its)"
    using firstTime_mem [of t ts] lastTime_mem [of t ts] assms by simp_all
  then have "0 \<le> firstTime t ts" "lastTime t ts \<le> 1439"
    using parseTimes_range by blast+
  then show ?thesis
    using first_le_last [of t ts] by (simp add: durationMinutes_span)
qed

lemma hours_not_full_day: "xs @ '' hours'' \<noteq> ''Full day''"
proof
  assume "xs @ '' hours'' = ''Full day''"
  then have "last (xs @ '' hours'') = last ''Full day''" by (rule arg_cong)
  then show False by simp
qed

lemma formatDuration_not_full: "d < 1440 \<Longrightarrow> formatDuration d \<noteq> ''Full day''"
  by (simp add: formatDuration_def hours_not_full_day)

text \<open>When the valid times fit the argument limit the function returns, otherwise it throws.\<close>

lemma calculateDayDuration_Inr:
  "calculateDayDuration argumentLimit its = Inr s \<longleftrightarrow>
     length (parseTimes its) \<le> argumentLimit \<and>
     s = (case parseTimes its of
            [] \<Rightarrow> ''0 hours''
          | t # ts \<Rightarrow> formatDuration (durationMinutes t ts))"
  by (cases "parseTimes its") (auto simp: calculateDayDuration_def spreadFits_def)


lemma calculateDayDuration_throws:
  "argumentLimit < length (parseTimes its) \<Longrightarrow>
   calculateDayDuration argumentLimit its = Inl RangeError"
  by (cases "parseTimes its") (auto simp: calculateDayDuration_def spreadFits_def)

text \<open>
  A list of \<open>n\<close> items timed 09:00 has \<open>n\<close> valid times; with more of them than the
  engine accepts as arguments the function throws.
\<close>

lemma parseTimes_nine:
  "parseTimes (\<lparr>timing = ''09:00'', category = c, description = d\<rparr> # rest) =
     540 # parseTimes rest"
proof -
  have "timeMatch ''09:00'' = Some (''09'', ''00'')" by code_simp
  moreover have "parseInt10 ''09'' = 9" "parseInt10 ''00'' = 0" by code_simp+
  ultimately show ?thesis by simp
qed

lemma calculateDayDuration_long_list_throws:
  assumes "argumentLimit < n"
  shows "calculateDayDuration argumentLimit
           (replicate n \<lparr>timing = ''09:00'', category = c, description = d\<rparr>) = Inl RangeError"
proof -
  have "parseTimes (replicate k \<lparr>timing = ''09:00'', category = c, description = d\<rparr>) =
        replicate k 540" for k
    by (induction k) (simp_all add: parseTimes_nine del: parseTimes.simps(2))
  then show ?thesis using assms by (intro calculateDayDuration_throws) simp
qed

text \<open>
  Claim C1 says that the timings 23:00 and 01:00 give "2 hours". The code takes the
  smallest and the largest of the parsed times, here 60 and 1380 minutes, so the
  difference is 1320 minutes and, for every argument limit of at least two, the result is
  "22 hours".
\<close>

theorem calculateDayDuration_overnight_example:
  "calculateDayDuration (Suc (Suc n))
     [\<lparr>timing = ''23:00'', category = Str ''Transport'', description = Str ''Night train''\<rparr>,
      \<lparr>timing = ''01:00'', category = Str ''Hotel'', description = Str ''Check-in''\<rparr>]
   = Inr ''22 hours''"
proof -
  have "parseTimes
     [\<lparr>timing = ''23:00'', category = Str ''Transport'', description = Str ''Night train''\<rparr>,
      \<lparr>timing = ''01:00'', category = Str ''Hotel'', description = Str ''Check-in''\<rparr>]
    = [1380, 60]"
    by code_simp
  moreover have "formatDuration (durationMinutes 1380 [60]) = ''22 hours''"
    by code_simp
  ultimately show ?thesis by (simp add: calculateDayDuration_Inr)
qed

text \<open>
  Claim C9 (the function stands twice in the sources, in the processor and in the PDF
  generator, with the same body). For every item list with at least one valid time, the
  latest time minus the earliest time is not negative, so the overnight branch that adds
  1440 is never taken and the duration is that difference, between 0 and 1439 minutes; and
  for every item list and every argument limit the function does not return "Full day".
\<close>

theorem calculateDayDuration_never_full_day:
  "calculateDayDuration argumentLimit its \<noteq> Inr ''Full day'' \<and>
   (\<forall>t ts. parseTimes its = t # ts \<longrightarrow>
      0 \<le> lastTime t ts - firstTime t ts \<and> \<not> overnight t ts \<and>
      durationMinutes t ts = lastTime t ts - firstTime t ts \<and>
      durationMinutes t ts \<le> 1439)"
proof -
  have "calculateDayDuration argumentLimit its \<noteq> Inr ''Full day''"
  proof (cases "parseTimes its")
    case Nil
    then show ?thesis by (simp add: calculateDayDuration_def)
  next
    case (Cons t ts)
    then have "durationMinutes t ts < 1440" using durationMinutes_range by fastforce
    then have "formatDuration (durationMinutes t ts) \<noteq> ''Full day''"
      by (rule formatDuration_not_full)
    with Cons show ?thesis by (simp add: calculateDayDuration_def)
  qed
  moreover have "0 \<le> lastTime t ts - firstTime t ts" for t ts
    using first_le_last [of t ts] by simp
  ultimately show ?thesis
    using durationMinutes_range [of its] by (auto simp: not_overnight durationMinutes_span)
qed

theorem calculateDayDuration_never_full_day_witness:
  "parseTimes [\<lparr>timing = ''23:00'', category = Null, description = Null\<rparr>,
               \<lparr>timing = ''01:00'', category = Null, description = Null\<rparr>] = [1380, 60] \<and>
   \<not> overnight 1380 [60] \<and> durationMinutes 1380 [60] = 1320 \<and>
   calculateDayDuration 65536
              [\<lparr>timing = ''23:00'', category = Null, description = Null\<rparr>,
               \<lparr>timing = ''01:00'', category = Null, description = Null\<rparr>] \<noteq> Inr ''Full day''"
proof -
  have run: "parseTimes [\<lparr>timing = ''23:00'', category = Null, description = Null\<rparr>,
               \<lparr>timing = ''01:00'', category = Null, description = Null\<rparr>] = [1380, 60]"
    by code_simp
  have span: "lastTime 1380 [60] - firstTime 1380 [60] = 1320"
    by (simp add: lastTime_def firstTime_def)
  from calculateDayDuration_never_full_day
         [of 65536 "[\<lparr>timing = ''23:00'', category = Null, description = Null\<rparr>,
               \<lparr>timing = ''01:00'', category = Null, description = Null\<rparr>]"] run span
  show ?thesis by simp
qed

section \<open>Day grouping: what each bucket holds\<close>

lemma addRows_items: "items (fold addRow rs b) = items b @ map makeItem rs"
  by (induction rs arbitrary: b) (simp_all add: addRow_def Let_def)

lemma addRows_fields:
  "day (fold addRow rs b) = day b \<and> city (fold addRow rs b) = city b \<and>
   date (fold addRow rs b) = date b"
  by (induction rs arbitrary: b) (simp_all add: addRow_def Let_def)

lemma addMeals_set: "set (fold addMeal ms s) = set s \<union> set ms"
  by (induction ms arbitrary: s) (auto simp: addMeal_def)

lemma addMeals_distinct: "distinct s \<Longrightarrow> distinct (fold addMeal ms s)"
  by (induction ms arbitrary: s) (auto simp: addMeal_def)

lemma addRows_meals:
  "set (allMeals (fold addRow rs b)) =
     set (allMeals b) \<union> (\<Union>r \<in> set rs. set (detectMealsInItem (cellAt r 4) (cellAt r 5)))"
  by (induction rs arbitrary: b) (auto simp: addRow_def Let_def addMeals_set)

lemma addRows_distinct: "distinct (allMeals b) \<Longrightarrow> distinct (allMeals (fold addRow rs b))"
  by (induction rs arbitrary: b) (auto simp: addRow_def Let_def addMeals_distinct)

text \<open>A step that does not throw stores the extended bucket under the row's key.\<close>

lemma groupRow_Inr:
  assumes "groupRow r g = Inr g'"
  shows "g' = g(dayKey r \<mapsto> addRow r (case g (dayKey r) of None \<Rightarrow> newBucket r | Some b \<Rightarrow> b))"
  using assms by (auto simp: groupRow_def getProperty_def split: option.splits if_splits)

text \<open>
  The bucket of a key after the loop: the rows with that key, in order, added to the bucket
  that was there before or to a new bucket made from the first of them.
\<close>

lemma forEachRow_bucket:
  assumes "forEachRow rows g = Inr g'"
  shows "g' k = (case filter (\<lambda>r. dayKey r = k) rows of
                  [] \<Rightarrow> g k
                | r # rs \<Rightarrow>
                    Some (fold addRow (r # rs) (case g k of None \<Rightarrow> newBucket r | Some b \<Rightarrow> b)))"
  using assms
proof (induction rows arbitrary: g)
  case Nil
  then show ?case by simp
next
  case (Cons r rest)
  from Cons.prems obtain g1
    where g1: "groupRow r g = Inr g1" and rest: "forEachRow rest g1 = Inr g'"
    by (auto split: sum.splits)
  note upd = groupRow_Inr [OF g1]
  note IH = Cons.IH [OF rest]
  show ?case
  proof (cases "dayKey r = k")
    case True
    then show ?thesis using IH upd by (auto split: list.splits option.splits)
  next
    case False
    then show ?thesis using IH upd by (auto split: list.splits option.splits)
  qed
qed

text \<open>The loop throws exactly when some row's key names a member of \<^verbatim>\<open>Object.prototype\<close>.\<close>

lemma forEachRow_returns:
  assumes "dom g \<inter> set objectPrototypeKeys = {}"
  shows "(\<exists>g'. forEachRow rows g = Inr g') \<longleftrightarrow>
         (\<forall>r \<in> set rows. dayKey r \<notin> set objectPrototypeKeys)"
  using assms
proof (induction rows arbitrary: g)
  case Nil
  then show ?case by simp
next
  case (Cons r rest)
  show ?case
  proof (cases "dayKey r \<in> set objectPrototypeKeys")
    case True
    with Cons.prems have "g (dayKey r) = None" by auto
    with True have "groupRow r g = Inl TypeError" by (simp add: groupRow_def getProperty_def)
    with True show ?thesis by simp
  next
    case False
    then have "\<exists>g1. groupRow r g = Inr g1"
      by (cases "g (dayKey r)") (simp_all add: groupRow_def getProperty_def)
    then obtain g1 where g1: "groupRow r g = Inr g1" by blast
    from groupRow_Inr [OF g1] have "dom g1 = insert (dayKey r) (dom g)" by auto
    with False Cons.prems have "dom g1 \<inter> set objectPrototypeKeys = {}" by auto
    from Cons.IH [OF this] g1 False show ?thesis by simp
  qed
qed

lemma itemCount_step:
  assumes "finite (dom g)" "groupRow r g = Inr g'"
  shows "finite (dom g') \<and> itemCount g' = Suc (itemCount g)"
proof -
  let ?k = "dayKey r"
  note upd = groupRow_Inr [OF assms(2)]
  have dom': "dom g' = insert ?k (dom g)" using upd by auto
  have other: "\<And>j. j \<noteq> ?k \<Longrightarrow> g' j = g j" using upd by simp
  have rest: "(\<Sum>j \<in> dom g - {?k}. length (items (the (g' j)))) =
              (\<Sum>j \<in> dom g - {?k}. length (items (the (g j))))"
    by (rule sum.cong) (auto simp: other)
  have new: "itemCount g' =
      length (items (the (g' ?k))) + (\<Sum>j \<in> dom g - {?k}. length (items (the (g' j))))"
    unfolding itemCount_def dom' using assms(1) by (simp add: sum.insert_remove)
  show ?thesis
  proof (cases "g ?k")
    case None
    then have "?k \<notin> dom g" by auto
    then have "itemCount g = (\<Sum>j \<in> dom g - {?k}. length (items (the (g j))))"
      by (simp add: itemCount_def)
    moreover have "length (items (the (g' ?k))) = 1"
      using upd None by (simp add: addRow_def Let_def newBucket_def)
    ultimately show ?thesis using new rest dom' assms(1) by simp
  next
    case (Some b)
    then have "?k \<in> dom g" by auto
    then have "itemCount g =
        length (items b) + (\<Sum>j \<in> dom g - {?k}. length (items (the (g j))))"
      unfolding itemCount_def using assms(1) Some by (simp add: sum.remove)
    moreover have "length (items (the (g' ?k))) = Suc (length (items b))"
      using upd Some by (simp add: addRow_def Let_def)
    ultimately show ?thesis using new rest dom' assms(1) by simp
  qed
qed

lemma forEachRow_itemCount:
  assumes "finite (dom g)" "forEachRow rows g = Inr g'"
  shows "finite (dom g') \<and> itemCount g' = itemCount g + length rows"
  using assms
proof (induction rows arbitrary: g)
  case Nil
  then show ?case by simp
next
  case (Cons r rest)
  from Cons.prems obtain g1
    where g1: "groupRow r g = Inr g1" and rest: "forEachRow rest g1 = Inr g'"
    by (auto split: sum.splits)
  from itemCount_step [OF Cons.prems(1) g1] Cons.IH [OF _ rest] show ?case by simp
qed

lemma find_filter_conv: "find P xs = (case filter P xs of [] \<Rightarrow> None | x # _ \<Rightarrow> Some x)"
  by (induction xs) auto

section \<open>The assembled itinerary\<close>

lemma process_Inr:
  assumes "processItineraryData data = Inr r"
  shows "forEachRow (filteredRows data) Map.empty = Inr (days r) \<and> title r = tripTitle data"
  using assms by (auto simp: processItineraryData_def split: sum.splits)

text \<open>
  \<^verbatim>\<open>processItineraryData\<close> returns exactly when no kept row has a day cell whose string
  names a member of \<^verbatim>\<open>Object.prototype\<close>; otherwise it throws a \<^verbatim>\<open>TypeError\<close>.
\<close>

lemma process_returns:
  "(\<exists>r. processItineraryData data = Inr r) \<longleftrightarrow>
   (\<forall>r \<in> set (filteredRows data). dayKey r \<notin> set objectPrototypeKeys)"
proof -
  have "(\<exists>r. processItineraryData data = Inr r) \<longleftrightarrow>
        (\<exists>g. forEachRow (filteredRows data) Map.empty = Inr g)"
    by (auto simp: processItineraryData_def split: sum.splits)
  then show ?thesis using forEachRow_returns [of Map.empty "filteredRows data"] by simp
qed

lemma process_throws_example:
  "processItineraryData
     [[Str ''Title'', Str ''Weekend Trip''],
      [Str ''Day'', Str ''City'', Str ''Date'', Str ''Time'', Str ''Category'', Str ''Description''],
      [Str ''constructor'', Str ''Paris'', Str ''2025-05-01'', Str ''08:00'', Str ''Transport'',
       Str ''Arrival'']] = Inl TypeError"
    (is "?run = _")
proof -
  have "case ?run of Inl e \<Rightarrow> e = TypeError | Inr _ \<Rightarrow> False" by code_simp
  then show ?thesis by (cases ?run) auto
qed

lemma process_bucket:
  assumes "processItineraryData data = Inr r"
  shows "days r k = (case filter (\<lambda>x. dayKey x = k) (filteredRows data) of
                       [] \<Rightarrow> None
                     | x # xs \<Rightarrow> Some (fold addRow (x # xs) (newBucket x)))"
  using forEachRow_bucket [of "filteredRows data" Map.empty "days r" k] process_Inr [OF assms]
  by (simp split: list.splits)

section \<open>Row filter: truthiness against non-emptiness\<close>

lemma showNat_nonempty: "showNat n \<noteq> []"
  by (subst showNat.simps) simp

lemma showInt_nonempty: "showInt i \<noteq> []"
  by (simp add: showInt_def showNat_nonempty)

lemma truthy_spec_nonEmpty:
  "c \<noteq> Num 0 \<Longrightarrow> c \<noteq> Bool False \<Longrightarrow> truthy c = spec_nonEmpty c"
  by (cases c) (auto simp: spec_nonEmpty_def showInt_nonempty)

text \<open>
  The filter of the code and the filter of the specification agree on every row whose day,
  city and description cells are neither the number 0 nor \<^verbatim>\<open>false\<close>.
\<close>

lemma rowFilter_agrees_with_spec:
  assumes "\<forall>i \<in> {0, 1, 5}. cellAt r i \<noteq> Num 0 \<and> cellAt r i \<noteq> Bool False"
  shows "rowFilter r = spec_rowKept r"
  using assms by (simp add: rowFilter_def spec_rowKept_def truthy_spec_nonEmpty)

text \<open>
  Claim C3 says that the rows kept are exactly those whose day, city and description cells
  are non-empty (not null, not undefined, not the empty string after string coercion) and
  whose day and city are not the header words. The code tests the three cells for
  truthiness: a row whose day cell is the number 0 has a non-empty day, "0", and passes the
  test of the specification, but the code drops it.
\<close>

theorem rowFilter_drops_numeric_zero_day:
  "spec_rowKept
     [Num 0, Str ''Paris'', Str ''2025-05-01'', Str ''08:00'', Str ''Transport'', Str ''Arrival''] \<and>
   \<not> rowFilter
     [Num 0, Str ''Paris'', Str ''2025-05-01'', Str ''08:00'', Str ''Transport'', Str ''Arrival''] \<and>
   filteredRows
     [[Str ''Title'', Str ''Weekend Trip''],
      [Str ''Day'', Str ''City'', Str ''Date'', Str ''Time'', Str ''Category'', Str ''Description''],
      [Num 0, Str ''Paris'', Str ''2025-05-01'', Str ''08:00'', Str ''Transport'', Str ''Arrival'']]
   = []"
  by code_simp

section \<open>Properties of the assembled itinerary\<close>

lemma example_returns:
  "\<exists>r b. processItineraryData exampleGrid = Inr r \<and> days r ''1'' = Some b \<and>
      items b = [makeItem (exampleGrid ! 2), makeItem (exampleGrid ! 3)] \<and>
      allMeals b = [''lunch'']"
proof -
  have "case processItineraryData exampleGrid of
          Inl _ \<Rightarrow> False
        | Inr r \<Rightarrow>
            (case days r ''1'' of
               None \<Rightarrow> False
             | Some b \<Rightarrow>
                 items b = [makeItem (exampleGrid ! 2), makeItem (exampleGrid ! 3)] \<and>
                 allMeals b = [''lunch''])"
    by code_simp
  then show ?thesis by (auto split: sum.splits option.splits)
qed

lemma example_first:
  "find (\<lambda>x. dayKey x = ''1'') (filteredRows exampleGrid) = Some (exampleGrid ! 2)"
  by code_simp

lemma example_cells:
  "cellAt (exampleGrid ! 2) 1 = Str ''Paris'' \<and> cellAt (exampleGrid ! 2) 2 = Str ''2025-05-01'' \<and>
   cellAt (exampleGrid ! 3) 1 = Str ''Lyon'' \<and> cellAt (exampleGrid ! 3) 2 = Str ''2025-05-02'' \<and>
   cellAt (exampleGrid ! 2) 0 = Str ''1'' \<and> cellAt (exampleGrid ! 3) 0 = Num 1 \<and>
   dayKey (exampleGrid ! 3) = ''1''"
  by code_simp

lemma example_filtered:
  "filteredRows exampleGrid = drop 2 exampleGrid \<and> length exampleGrid = 5 \<and>
   list_all rowFilter (drop 2 exampleGrid)"
  by code_simp

lemma example_members:
  "exampleGrid ! 2 \<in> set (filteredRows exampleGrid) \<and>
   exampleGrid ! 3 \<in> set (filteredRows exampleGrid)"
  by code_simp

text \<open>
  Claim C4 (the loop stands a second time, unchanged, in \<^verbatim>\<open>processSpreadsheetData\<close>).
  Whenever \<^verbatim>\<open>processItineraryData\<close> returns, the bucket stored under a day key
  has the day, city and date cells of the first kept row with that key; kept rows that come
  later with the same key do not change them, whatever their city and date cells are.
\<close>

theorem processItineraryData_first_row_wins:
  assumes "processItineraryData data = Inr r" and "days r k = Some b"
  shows "\<exists>x. find (\<lambda>x. dayKey x = k) (filteredRows data) = Some x \<and>
             day b = cellAt x 0 \<and> city b = cellAt x 1 \<and> date b = cellAt x 2"
proof -
  from process_bucket [OF assms(1), of k] assms(2)
  obtain x xs where rows: "filter (\<lambda>x. dayKey x = k) (filteredRows data) = x # xs"
    and b: "b = fold addRow (x # xs) (newBucket x)"
    by (auto split: list.splits)
  from rows have "find (\<lambda>x. dayKey x = k) (filteredRows data) = Some x"
    by (simp add: find_filter_conv)
  moreover have "day b = cellAt x 0 \<and> city b = cellAt x 1 \<and> date b = cellAt x 2"
    unfolding b using addRows_fields [of "x # xs" "newBucket x"] by (simp add: newBucket_def)
  ultimately show ?thesis by blast
qed

text \<open>
  In the sample grid the rows of day 1 name Paris and then Lyon; the bucket keeps Paris.
\<close>

theorem processItineraryData_first_row_wins_witness:
  "\<exists>r b. processItineraryData exampleGrid = Inr r \<and> days r ''1'' = Some b \<and>
     length (items b) = 2 \<and> city b = Str ''Paris'' \<and> date b = Str ''2025-05-01''"
proof -
  from example_returns obtain r b
    where r: "processItineraryData exampleGrid = Inr r" and b: "days r ''1'' = Some b"
      and i: "items b = [makeItem (exampleGrid ! 2), makeItem (exampleGrid ! 3)]"
    by blast
  from processItineraryData_first_row_wins [OF r b] example_first example_cells r b i
  show ?thesis by auto
qed

text \<open>
  Claim C5. Whenever \<^verbatim>\<open>processItineraryData\<close> returns, the items of every bucket are
  those made from the kept rows with the bucket's key, in row order, and the meals of the
  bucket are, as a set, the union of \<^verbatim>\<open>detectMealsInItem(category, description)\<close> over
  these items, no meal being listed twice.
\<close>

theorem processItineraryData_allMeals_union:
  assumes "processItineraryData data = Inr r" and "days r k = Some b"
  shows "items b = map makeItem (filter (\<lambda>x. dayKey x = k) (filteredRows data)) \<and>
         set (allMeals b) =
           (\<Union>i \<in> set (items b). set (detectMealsInItem (category i) (description i))) \<and>
         distinct (allMeals b)"
proof -
  from process_bucket [OF assms(1), of k] assms(2)
  obtain x xs where rows: "filter (\<lambda>x. dayKey x = k) (filteredRows data) = x # xs"
    and b: "b = fold addRow (x # xs) (newBucket x)"
    by (auto split: list.splits)
  have i: "items b = map makeItem (x # xs)"
    unfolding b addRows_items by (simp add: newBucket_def)
  moreover have "set (allMeals b) =
      (\<Union>r \<in> set (x # xs). set (detectMealsInItem (cellAt r 4) (cellAt r 5)))"
    unfolding b addRows_meals by (simp add: newBucket_def)
  moreover have "distinct (allMeals b)"
    unfolding b by (rule addRows_distinct) (simp add: newBucket_def)
  ultimately show ?thesis unfolding rows by (simp add: makeItem_def)
qed

theorem processItineraryData_allMeals_union_witness:
  "\<exists>r b. processItineraryData exampleGrid = Inr r \<and> days r ''1'' = Some b \<and>
     allMeals b = [''lunch''] \<and>
     (\<Union>i \<in> set (items b). set (detectMealsInItem (category i) (description i))) = {''lunch''}"
proof -
  from example_returns obtain r b
    where r: "processItineraryData exampleGrid = Inr r" and b: "days r ''1'' = Some b"
      and m: "allMeals b = [''lunch'']"
    by blast
  from processItineraryData_allMeals_union [OF r b] m r b show ?thesis by auto
qed

text \<open>
  Claim C6. Whenever \<^verbatim>\<open>processItineraryData\<close> returns, the number of items over all
  buckets equals the number of kept rows; so when every row from index 2 onward passes the
  filter, it equals the number of those rows.
\<close>

theorem processItineraryData_item_count:
  assumes "processItineraryData data = Inr r"
  shows "totalItems r = length (filteredRows data) \<and>
         ((\<forall>x \<in> set (drop 2 data). rowFilter x) \<longrightarrow> totalItems r = length data - 2)"
proof -
  have "itemCount Map.empty = 0" by (simp add: itemCount_def)
  with forEachRow_itemCount [of Map.empty "filteredRows data" "days r"] process_Inr [OF assms]
  have "totalItems r = length (filteredRows data)" by (simp add: totalItems_def)
  then show ?thesis by (auto simp: filteredRows_def)
qed

theorem processItineraryData_item_count_witness:
  "list_all rowFilter (drop 2 exampleGrid) \<and> length (filteredRows exampleGrid) = 3 \<and>
   (\<exists>r. processItineraryData exampleGrid = Inr r \<and> totalItems r = 3)"
proof -
  from example_returns obtain r where r: "processItineraryData exampleGrid = Inr r" by blast
  have all: "\<forall>x \<in> set (drop 2 exampleGrid). rowFilter x"
    using example_filtered by (simp add: list_all_iff)
  from processItineraryData_item_count [OF r] all example_filtered
  have "totalItems r = 3" by simp
  with r example_filtered show ?thesis by auto
qed

text \<open>
  Claim C8. For the empty grid, and for every grid none of whose rows from index 2 onward
  passes the filter, \<^verbatim>\<open>processItineraryData\<close> returns (it does not throw) an itinerary
  with no days. Whenever it returns, the title is the cell \<^verbatim>\<open>grid[0][1]\<close> if that cell
  is truthy and "Travel Itinerary" otherwise, in particular when the grid has no first row
  or the row has no second cell.
\<close>

theorem processItineraryData_no_data_rows:
  "((\<forall>x \<in> set (drop 2 data). \<not> rowFilter x) \<longrightarrow>
      (\<exists>r. processItineraryData data = Inr r \<and> days r = Map.empty)) \<and>
   (\<forall>r. processItineraryData data = Inr r \<longrightarrow>
      title r = (case data of
                   [] \<Rightarrow> Str ''Travel Itinerary''
                 | r0 # _ \<Rightarrow>
                     if truthy (cellAt r0 1) then cellAt r0 1 else Str ''Travel Itinerary''))"
proof -
  have "\<exists>r. processItineraryData data = Inr r \<and> days r = Map.empty"
    if "\<forall>x \<in> set (drop 2 data). \<not> rowFilter x"
  proof -
    from that have "filteredRows data = []" by (simp add: filteredRows_def)
    then show ?thesis by (simp add: processItineraryData_def)
  qed
  moreover have "title r = (case data of
                   [] \<Rightarrow> Str ''Travel Itinerary''
                 | r0 # _ \<Rightarrow>
                     if truthy (cellAt r0 1) then cellAt r0 1 else Str ''Travel Itinerary'')"
    if "processItineraryData data = Inr r" for r
    using process_Inr [OF that] by (simp add: tripTitle_def Let_def split: list.splits)
  ultimately show ?thesis by blast
qed

lemma rejected_rows: "list_all (\<lambda>x. \<not> rowFilter x) (drop 2 rejectedGrid)"
  by code_simp

lemma rejected_title:
  "(case rejectedGrid of
      [] \<Rightarrow> Str ''Travel Itinerary''
    | r0 # _ \<Rightarrow> if truthy (cellAt r0 1) then cellAt r0 1 else Str ''Travel Itinerary'')
   = Str ''Weekend Trip''"
  by code_simp

theorem processItineraryData_no_data_rows_witness:
  "(\<exists>r. processItineraryData [] = Inr r \<and> days r = Map.empty \<and>
        title r = Str ''Travel Itinerary'') \<and>
   (\<exists>r. processItineraryData [[Str ''Title'']] = Inr r \<and> days r = Map.empty \<and>
        title r = Str ''Travel Itinerary'') \<and>
   (\<exists>r. processItineraryData rejectedGrid = Inr r \<and> days r = Map.empty \<and>
        title r = Str ''Weekend Trip'')"
proof -
  have none: "\<forall>x \<in> set (drop 2 rejectedGrid). \<not> rowFilter x"
    using rejected_rows by (simp add: list_all_iff)
  have a: "\<exists>r. processItineraryData [] = Inr r \<and> days r = Map.empty \<and>
        title r = Str ''Travel Itinerary''"
    using processItineraryData_no_data_rows [of "[]"] by auto
  have b: "\<exists>r. processItineraryData [[Str ''Title'']] = Inr r \<and> days r = Map.empty \<and>
        title r = Str ''Travel Itinerary''"
    using processItineraryData_no_data_rows [of "[[Str ''Title'']]"] by (auto simp: cellAt_def)
  have c: "\<exists>r. processItineraryData rejectedGrid = Inr r \<and> days r = Map.empty \<and>
        title r = Str ''Weekend Trip''"
    using processItineraryData_no_data_rows [of rejectedGrid] none rejected_title by auto
  from a b c show ?thesis by blast
qed

lemma key_one: "toString (Num 1) = ''1''"
  by code_simp

text \<open>
  Claim C10. The bucket of a row is found under the string coercion of its day cell. So
  whenever \<^verbatim>\<open>processItineraryData\<close> returns and two kept rows have the number 1 and the
  string "1" as their day cells, both rows have the key "1" and the items made from both
  are in the one bucket stored under that key.
\<close>

theorem processItineraryData_number_and_string_key:
  assumes "processItineraryData data = Inr r"
    and "x \<in> set (filteredRows data)" and "y \<in> set (filteredRows data)"
    and "cellAt x 0 = Num 1" and "cellAt y 0 = Str ''1''"
  shows "dayKey x = ''1'' \<and> dayKey y = ''1'' \<and>
         (\<exists>b. days r ''1'' = Some b \<and> makeItem x \<in> set (items b) \<and> makeItem y \<in> set (items b))"
proof -
  have kx: "dayKey x = ''1''" using assms(4) key_one by (simp add: dayKey_def)
  have ky: "dayKey y = ''1''" using assms(5) by (simp add: dayKey_def)
  let ?rows = "filter (\<lambda>z. dayKey z = ''1'') (filteredRows data)"
  have mem: "x \<in> set ?rows" "y \<in> set ?rows" using assms(2,3) kx ky by simp_all
  then obtain z zs where rows: "?rows = z # zs" by (cases ?rows) auto
  with process_bucket [OF assms(1), of "''1''"]
  have b: "days r ''1'' = Some (fold addRow (z # zs) (newBucket z))" by simp
  have "items (fold addRow (z # zs) (newBucket z)) = map makeItem ?rows"
    unfolding addRows_items rows by (simp add: newBucket_def)
  with mem have "makeItem x \<in> set (items (fold addRow (z # zs) (newBucket z)))"
    "makeItem y \<in> set (items (fold addRow (z # zs) (newBucket z)))" by auto
  with b kx ky show ?thesis by blast
qed

theorem processItineraryData_number_and_string_key_witness:
  "cellAt (exampleGrid ! 3) 0 = Num 1 \<and> cellAt (exampleGrid ! 2) 0 = Str ''1'' \<and>
   (\<exists>r b. processItineraryData exampleGrid = Inr r \<and> days r ''1'' = Some b \<and>
      makeItem (exampleGrid ! 3) \<in> set (items b) \<and> makeItem (exampleGrid ! 2) \<in> set (items b))"
proof -
  from example_returns obtain r where r: "processItineraryData exampleGrid = Inr r" by blast
  have x: "exampleGrid ! 3 \<in> set (filteredRows exampleGrid)"
    and y: "exampleGrid ! 2 \<in> set (filteredRows exampleGrid)"
    using example_members by simp_all
  have cx: "cellAt (exampleGrid ! 3) 0 = Num 1" and cy: "cellAt (exampleGrid ! 2) 0 = Str ''1''"
    using example_cells by simp_all
  from processItineraryData_number_and_string_key [OF r x y cx cy] r cx cy
  show ?thesis by blast
qed

section \<open>Duration calculator against the reference definition\<close>










text \<open>
  Halfway cases follow the binary quotient: 9 minutes are 0.15 hours, whose binary64 value
  lies below 0.15 and prints as 0.1; 15 minutes are exactly 0.25 hours and print as 0.3;
  1439 minutes print as 24.0.
\<close>

lemma hoursToFixed1_examples:
  "hoursToFixed1 9 = ''0.1'' \<and> hoursToFixed1 15 = ''0.3'' \<and> hoursToFixed1 3 = ''0.1'' \<and>
   hoursToFixed1 501 = ''8.3'' \<and> hoursToFixed1 489 = ''8.2'' \<and> hoursToFixed1 1439 = ''24.0''"
  by code_simp




end
